theory Spec2Isabelle
  imports Main "HOL-Library.Char_ord" "HOL-Library.List_Lexorder" "HOL-Library.Product_Lexorder"
begin

section \<open>Data model\<close>

text \<open>
  The dashboard of \<^verbatim>\<open>st_flights_dashboard.py\<close> works on one pandas DataFrame of flight
  departures. A row is modelled as a record of the columns the program reads:
  \<^verbatim>\<open>dep_time\<close>, \<^verbatim>\<open>dep_terminal\<close>, \<^verbatim>\<open>airline_iata\<close>, \<^verbatim>\<open>flight_iata\<close> and
  \<^verbatim>\<open>timestamp_api_call\<close>; the other columns of the API are passed through untouched by
  every function and are left out. A missing value (NaN, None, NaT) is \<open>None\<close>.

  A pandas timestamp is a count of nanoseconds since the epoch; \<^verbatim>\<open>.dt.hour\<close> and
  \<^verbatim>\<open>.dt.minute\<close> read the hour of the day and the minute of the hour from it.
\<close>

type_synonym timestamp = int

definition dt_hour :: "timestamp \<Rightarrow> int" where
  "dt_hour t = (t div 3600000000000) mod 24"

definition dt_minute :: "timestamp \<Rightarrow> int" where
  "dt_minute t = (t div 60000000000) mod 60"

text \<open>
  The record is parametric in the type of the two time columns: before lines 59-60 of the
  source they hold whatever the API or the cache file gave (a \<open>cell\<close>, see below),
  afterwards a timestamp or NaT.
\<close>

record 't flight_row =
  dep_time :: 't
  dep_terminal :: "string option"
  airline_iata :: "string option"
  flight_iata :: "string option"
  timestamp_api_call :: 't

type_synonym flight = "timestamp option flight_row"

text \<open>A table: the column labels and the rows, as a DataFrame has them.\<close>

record 'r table =
  columns :: "string list"
  rows :: "'r list"

section \<open>Aggregator\<close>

text \<open>
  The four functions below are modelled on the rows of a DataFrame that carries the columns
  \<^verbatim>\<open>dep_time\<close>, \<^verbatim>\<open>dep_terminal\<close>, \<^verbatim>\<open>airline_iata\<close> and \<^verbatim>\<open>flight_iata\<close>
  (what \<^verbatim>\<open>load_data\<close> returns for the API's schema).

  Lines 72 and 74 test the filter arguments for truth, as Python does:
  \<^verbatim>\<open>if departure_hour:\<close> is false for \<^verbatim>\<open>None\<close> and for \<^verbatim>\<open>0\<close>,
  \<^verbatim>\<open>if terminal_selected:\<close> is false for \<^verbatim>\<open>None\<close> and for the empty string.
\<close>

definition truthy_int :: "int option \<Rightarrow> bool" where
  "truthy_int v = (case v of None \<Rightarrow> False | Some n \<Rightarrow> n \<noteq> 0)"

definition truthy_str :: "string option \<Rightarrow> bool" where
  "truthy_str v = (case v of None \<Rightarrow> False | Some s \<Rightarrow> s \<noteq> [])"

text \<open>
  \<^verbatim>\<open>data[data["dep_time"].dt.hour == departure_hour]\<close>: the hour of NaT is NaN, which
  equals no number, so a row without a departure time is dropped by the hour mask; a row
  without a terminal is dropped by the terminal mask.
\<close>

definition filter_data :: "flight list \<Rightarrow> int option \<Rightarrow> string option \<Rightarrow> flight list" where
  "filter_data data departure_hour terminal_selected =
     (let data1 = (if truthy_int departure_hour
                   then filter (\<lambda>r. map_option dt_hour (dep_time r) = departure_hour) data
                   else data);
          data2 = (if truthy_str terminal_selected
                   then filter (\<lambda>r. dep_terminal r = terminal_selected) data1
                   else data1)
      in data2)"

text \<open>
  \<^verbatim>\<open>np.histogram(a, bins, range=(lo, hi))[0]\<close> on integer samples: a sample outside
  \<open>[lo, hi]\<close> (NaN included) is left out, a sample \<open>v\<close> falls into the bin of index
  \<open>(v - lo) * bins div (hi - lo)\<close>, and the upper edge \<open>hi\<close> belongs to the last bin.
\<close>

definition bin_index :: "nat \<Rightarrow> int \<Rightarrow> int \<Rightarrow> int \<Rightarrow> nat" where
  "bin_index bins lo hi v =
     (let i = nat (((v - lo) * int bins) div (hi - lo)) in if i = bins then i - 1 else i)"

definition np_histogram :: "int option list \<Rightarrow> nat \<Rightarrow> int \<Rightarrow> int \<Rightarrow> nat list" where
  "np_histogram a bins lo hi =
     (let kept = concat (map (\<lambda>x. case x of None \<Rightarrow> [] | Some v \<Rightarrow> if lo \<le> v \<and> v \<le> hi then [v] else []) a);
          indices = map (bin_index bins lo hi) kept
      in map (\<lambda>b. length (filter (\<lambda>i. i = b) indices)) [0..<bins])"

definition calculate_data_by_hour ::
  "flight list \<Rightarrow> int option \<Rightarrow> string option \<Rightarrow> (nat \<times> nat) table" where
  "calculate_data_by_hour data departure_hour terminal_selected =
     (let data' = filter_data data departure_hour terminal_selected;
          hist = np_histogram (map (\<lambda>r. map_option dt_minute (dep_time r)) data') 60 0 60
      in \<lparr>columns = [''minute'', ''departures''], rows = zip [0..<60] hist\<rparr>)"

text \<open>
  \<^verbatim>\<open>groupby(keys)\<close> with the defaults of pandas: a row with a missing key is in no group,
  and the groups come sorted by key. \<^verbatim>\<open>nunique\<close> counts the distinct values of a group
  that are not missing.
\<close>

definition somes :: "'a option list \<Rightarrow> 'a list" where
  "somes xs = concat (map (\<lambda>x. case x of None \<Rightarrow> [] | Some v \<Rightarrow> [v]) xs)"

definition nunique :: "'a option list \<Rightarrow> nat" where
  "nunique xs = length (remdups (somes xs))"

definition group_keys :: "('r \<Rightarrow> 'k option) \<Rightarrow> 'r list \<Rightarrow> ('k::linorder) list" where
  "group_keys key data = sort (remdups (somes (map key data)))"

definition group_rows :: "('r \<Rightarrow> 'k option) \<Rightarrow> 'r list \<Rightarrow> 'k \<Rightarrow> 'r list" where
  "group_rows key data k = filter (\<lambda>r. key r = Some k) data"

definition group_data_by_terminal :: "flight list \<Rightarrow> int option \<Rightarrow> (string \<times> nat) table" where
  "group_data_by_terminal data departure_hour =
     (let data' = filter_data data departure_hour None
      in \<lparr>columns = [''dep_terminal'', ''count_flights''],
          rows = map (\<lambda>t. (t, nunique (map flight_iata (group_rows dep_terminal data' t))))
                     (group_keys dep_terminal data')\<rparr>)"

definition terminal_airline :: "flight \<Rightarrow> (string \<times> string) option" where
  "terminal_airline r =
     (case (dep_terminal r, airline_iata r) of (Some t, Some a) \<Rightarrow> Some (t, a) | _ \<Rightarrow> None)"

definition group_data_by_airline ::
  "flight list \<Rightarrow> int option \<Rightarrow> (string \<times> string \<times> nat \<times> string) table" where
  "group_data_by_airline data departure_hour =
     (let data' = filter_data data departure_hour None;
          grouped = \<lparr>columns = [''dep_terminal'', ''airline_iata'', ''count_flights''],
                     rows = map (\<lambda>(t, a). (t, a, nunique (map flight_iata (group_rows terminal_airline data' (t, a)))))
                                (group_keys terminal_airline data')\<rparr>
      in \<lparr>columns = columns grouped @ [''airport''],
          rows = map (\<lambda>(t, a, n). (t, a, n, ''LAX'')) (rows grouped)\<rparr>)"

section \<open>Dataset provider\<close>

text \<open>
  \<^verbatim>\<open>load_data\<close> reads the clock, the directory listing, the cache files and the remote API,
  and may write one file. The model passes this world in and returns what the call did to it.
  What the libraries compute (parsing a date out of a file name, the CSV text of a table and
  back, parsing a date-time string) is not code of this program: those functions are taken
  as parameters, so that every theorem holds for whatever they compute.
\<close>

datatype error =
  ValueError | KeyError | TypeError | FileNotFoundError | OSError
  | ConnectionError | JSONDecodeError | ParserError | DateParseError

text \<open>A cell of a time column before lines 59-60: missing, a string, or a datetime object.\<close>

datatype cell = Null | Text string | Stamp timestamp

type_synonym raw_table = "cell flight_row table"
type_synonym dataset = "flight table"

text \<open>
  What \<^verbatim>\<open>requests.get(...)\<close> and \<^verbatim>\<open>result.json().get("response")\<close> of lines 42-43 come to:
  the request raises, the body is not JSON, or the body is a JSON object whose
  \<^verbatim>\<open>response\<close> is absent or null (\<open>Reply None\<close>) or an array of flight objects.
  The API key of line 38 only travels with the request and has no other part in the function.
\<close>

datatype reply = NetworkError | MalformedJSON | Reply "cell flight_row list option"

record 'd library =
  strptime :: "string \<Rightarrow> 'd option"
  strftime :: "'d \<Rightarrow> string"
  read_csv :: "string \<Rightarrow> error + raw_table"
  to_csv :: "raw_table \<Rightarrow> string"
  to_datetime :: "string \<Rightarrow> timestamp option"

text \<open>
  \<^item> \<open>strptime\<close>: \<^verbatim>\<open>dt.datetime.strptime(s, "%Y%m%d").date()\<close>, \<open>None\<close> when it raises;
  \<^item> \<open>strftime\<close>: \<^verbatim>\<open>d.strftime('%Y%m%d')\<close>;
  \<^item> \<open>read_csv\<close>: the table pandas parses from the text of a file, or its error;
  \<^item> \<open>to_csv\<close>: the text \<^verbatim>\<open>to_csv(index=False)\<close> writes for a table;
  \<^item> \<open>to_datetime\<close>: the timestamp \<^verbatim>\<open>pd.to_datetime\<close> reads from a string, \<open>None\<close>
    when it raises.
\<close>

record 'd world =
  today :: 'd
  now :: timestamp
  glob :: "string \<Rightarrow> string list"
  files :: "string \<rightharpoonup> string"
  writable :: "string \<Rightarrow> bool"
  api :: "string \<Rightarrow> reply"

text \<open>
  \<^item> \<open>today\<close>, \<open>now\<close>: \<^verbatim>\<open>dt.date.today()\<close> and \<^verbatim>\<open>dt.datetime.now()\<close>;
  \<^item> \<open>glob\<close>: the paths \<^verbatim>\<open>glob.glob\<close> lists for a pattern;
  \<^item> \<open>files\<close>: the text of each file, by path; \<open>writable\<close>: whether a path can be written;
  \<^item> \<open>api\<close>: the reply of the schedules API for a departure airport.
\<close>

record outcome =
  returned :: "error + dataset"
  requests :: nat
  files_after :: "string \<rightharpoonup> string"

text \<open>\<^verbatim>\<open>os.path.join\<close> of two parts, \<^verbatim>\<open>max\<close> of a list of strings, the slice
  \<^verbatim>\<open>s[-12:-4]\<close> and \<^verbatim>\<open>str.lower\<close> on ASCII letters.\<close>

definition os_path_join :: "string \<Rightarrow> string \<Rightarrow> string" where
  "os_path_join a b =
     (if b \<noteq> [] \<and> hd b = CHR ''/'' then b
      else if a = [] \<or> last a = CHR ''/'' then a @ b
      else a @ ''/'' @ b)"

fun py_max :: "string list \<Rightarrow> string option" where
  "py_max [] = None"
| "py_max (x # xs) = Some (fold max xs x)"

definition slice_m12_m4 :: "string \<Rightarrow> string" where
  "slice_m12_m4 s = drop (length s - 12) (take (length s - 4) s)"

definition str_lower :: "string \<Rightarrow> string" where
  "str_lower s =
     map (\<lambda>c. if CHR ''A'' \<le> c \<and> c \<le> CHR ''Z'' then char_of (of_char c + (32::nat)) else c) s"

text \<open>
  Lines 26-31: the newest cache file and its date. The bare \<^verbatim>\<open>except\<close> sets both to
  \<^verbatim>\<open>None\<close> when the listing is empty (\<^verbatim>\<open>max\<close> raises) and when the eight characters
  before the extension are not a date (\<^verbatim>\<open>strptime\<close> raises).
\<close>

definition latest_csv :: "'d library \<Rightarrow> 'd world \<Rightarrow> string \<Rightarrow> string \<Rightarrow> (string \<times> 'd) option" where
  "latest_csv lib w csv_filename csv_filepath =
     (case py_max (glob w (os_path_join csv_filepath csv_filename)) of
        None \<Rightarrow> None
      | Some latest_csv_name \<Rightarrow>
          (case strptime lib (slice_m12_m4 latest_csv_name) of
             None \<Rightarrow> None
           | Some latest_csv_date \<Rightarrow> Some (latest_csv_name, latest_csv_date)))"

text \<open>\<^verbatim>\<open>pd.read_csv(path)\<close>: \<^verbatim>\<open>None\<close> is no path (ValueError), a missing file is an error.\<close>

definition pd_read_csv :: "'d library \<Rightarrow> 'd world \<Rightarrow> string option \<Rightarrow> error + raw_table" where
  "pd_read_csv lib w path =
     (case path of
        None \<Rightarrow> Inl ValueError
      | Some p \<Rightarrow> (case files w p of None \<Rightarrow> Inl FileNotFoundError | Some text \<Rightarrow> read_csv lib text))"

text \<open>
  \<^verbatim>\<open>pd.DataFrame(response)\<close>: the flight objects of the API carry the keys of the four
  columns; an empty array gives a table with no column at all.
\<close>

definition pd_DataFrame :: "cell flight_row list \<Rightarrow> raw_table" where
  "pd_DataFrame response =
     \<lparr>columns = (if response = [] then []
                 else [''dep_time'', ''dep_terminal'', ''airline_iata'', ''flight_iata'']),
      rows = response\<rparr>"

text \<open>Line 50: \<^verbatim>\<open>data["timestamp_api_call"] = timestamp_api_call\<close>.\<close>

definition set_timestamp_api_call :: "raw_table \<Rightarrow> timestamp \<Rightarrow> raw_table" where
  "set_timestamp_api_call data ts =
     \<lparr>columns = (if ''timestamp_api_call'' \<in> set (columns data) then columns data
                 else columns data @ [''timestamp_api_call'']),
      rows = map (\<lambda>r. r\<lparr>timestamp_api_call := Stamp ts\<rparr>) (rows data)\<rparr>"

text \<open>Lines 59-60: \<^verbatim>\<open>pd.to_datetime\<close> on the two time columns, \<^verbatim>\<open>dep_time\<close> first.\<close>

definition to_datetime_cell :: "'d library \<Rightarrow> cell \<Rightarrow> error + timestamp option" where
  "to_datetime_cell lib c =
     (case c of
        Null \<Rightarrow> Inr None
      | Stamp t \<Rightarrow> Inr (Some t)
      | Text s \<Rightarrow> (case to_datetime lib s of None \<Rightarrow> Inl DateParseError | Some t \<Rightarrow> Inr (Some t)))"

fun to_datetime_col :: "'d library \<Rightarrow> cell list \<Rightarrow> error + timestamp option list" where
  "to_datetime_col lib [] = Inr []"
| "to_datetime_col lib (c # cs) =
     (case to_datetime_cell lib c of
        Inl e \<Rightarrow> Inl e
      | Inr t \<Rightarrow> (case to_datetime_col lib cs of Inl e \<Rightarrow> Inl e | Inr ts \<Rightarrow> Inr (t # ts)))"

definition with_times :: "cell flight_row \<Rightarrow> timestamp option \<Rightarrow> timestamp option \<Rightarrow> flight" where
  "with_times r d s =
     \<lparr>dep_time = d, dep_terminal = dep_terminal r, airline_iata = airline_iata r,
      flight_iata = flight_iata r, timestamp_api_call = s\<rparr>"

definition normalise :: "'d library \<Rightarrow> raw_table \<Rightarrow> error + dataset" where
  "normalise lib data =
     (if ''dep_time'' \<notin> set (columns data) then Inl KeyError
      else case to_datetime_col lib (map dep_time (rows data)) of
        Inl e \<Rightarrow> Inl e
      | Inr deps \<Rightarrow>
          if ''timestamp_api_call'' \<notin> set (columns data) then Inl KeyError
          else case to_datetime_col lib (map timestamp_api_call (rows data)) of
            Inl e \<Rightarrow> Inl e
          | Inr stamps \<Rightarrow>
              Inr \<lparr>columns = columns data,
                   rows = map (\<lambda>(r, d, s). with_times r d s) (zip (rows data) (zip deps stamps))\<rparr>)"

definition and_then :: "error + 'a \<Rightarrow> ('a \<Rightarrow> error + 'b) \<Rightarrow> error + 'b" where
  "and_then x f = (case x of Inl e \<Rightarrow> Inl e | Inr v \<Rightarrow> f v)"

definition load_data :: "'d library \<Rightarrow> 'd world \<Rightarrow> string \<Rightarrow> string \<Rightarrow> string \<Rightarrow> outcome" where
  "load_data lib w csv_filename csv_filepath airport_iata =
     (let date_today = today w;
          latest = latest_csv lib w csv_filename csv_filepath;
          latest_csv_name = map_option fst latest;
          latest_csv_date = map_option snd latest
      in if latest_csv_date = Some date_today
         then \<lparr>returned = and_then (pd_read_csv lib w latest_csv_name) (normalise lib),
               requests = 0, files_after = files w\<rparr>
         else
           (let timestamp_api_call = now w in
            case api w airport_iata of
              NetworkError \<Rightarrow>
                \<lparr>returned = Inl ConnectionError, requests = 1, files_after = files w\<rparr>
            | MalformedJSON \<Rightarrow>
                \<lparr>returned = Inl JSONDecodeError, requests = 1, files_after = files w\<rparr>
            | Reply None \<Rightarrow>
                \<lparr>returned = and_then (pd_read_csv lib w latest_csv_name) (normalise lib),
                 requests = 1, files_after = files w\<rparr>
            | Reply (Some response) \<Rightarrow>
                (let data = set_timestamp_api_call (pd_DataFrame response) timestamp_api_call;
                     path = os_path_join csv_filepath
                              (str_lower airport_iata @ ''_flights_'' @ strftime lib date_today @ ''.csv'')
                 in if writable w path
                    then \<lparr>returned = normalise lib data, requests = 1,
                          files_after = (files w)(path \<mapsto> to_csv lib data)\<rparr>
                    else \<lparr>returned = Inl OSError, requests = 1, files_after = files w\<rparr>)))"

text \<open>
  Line 23 wraps \<^verbatim>\<open>load_data\<close> in \<^verbatim>\<open>st.experimental_singleton\<close>. Streamlit keeps the value
  a call returned under the arguments of the call, for the life of the process, and answers a
  later call with the same arguments from that store without running the body; a call that
  raises stores nothing, so the next call runs the body again.
\<close>

record process =
  singleton :: "(string \<times> string \<times> string) \<rightharpoonup> dataset"

definition cached_load_data ::
  "'d library \<Rightarrow> 'd world \<Rightarrow> process \<Rightarrow> string \<Rightarrow> string \<Rightarrow> string \<Rightarrow> outcome \<times> process" where
  "cached_load_data lib w p csv_filename csv_filepath airport_iata =
     (case singleton p (csv_filename, csv_filepath, airport_iata) of
        Some data \<Rightarrow> (\<lparr>returned = Inr data, requests = 0, files_after = files w\<rparr>, p)
      | None \<Rightarrow>
          (let out = load_data lib w csv_filename csv_filepath airport_iata
           in case returned out of
                Inl e \<Rightarrow> (out, p)
              | Inr data \<Rightarrow>
                  (out, p\<lparr>singleton := (singleton p)((csv_filename, csv_filepath, airport_iata) \<mapsto> data)\<rparr>)))"

definition new_process :: process where
  "new_process = \<lparr>singleton = Map.empty\<rparr>"



section \<open>Cache file format\<close>
















section \<open>Sample data\<close>

text \<open>Concrete flights, used to run the functions above: day 19300 is 2022-11-04.\<close>

definition at_time :: "int \<Rightarrow> int \<Rightarrow> int \<Rightarrow> timestamp" where
  "at_time day hh mm = ((day * 24 + hh) * 60 + mm) * 60000000000"

definition sample_flight ::
  "int \<Rightarrow> int \<Rightarrow> string option \<Rightarrow> string option \<Rightarrow> string option \<Rightarrow> flight" where
  "sample_flight hh mm t a f =
     \<lparr>dep_time = Some (at_time 19300 hh mm), dep_terminal = t, airline_iata = a,
      flight_iata = f, timestamp_api_call = Some (at_time 19300 6 0)\<rparr>"

definition scenario_data :: "flight list" where
  "scenario_data =
     [sample_flight 10 5 (Some ''B'') (Some ''AA'') (Some ''AA100''),
      sample_flight 11 0 (Some ''B'') (Some ''DL'') (Some ''DL200''),
      sample_flight 11 30 (Some ''B'') (Some ''UA'') (Some ''UA300'')]"

definition shared_flight_data :: "flight list" where
  "shared_flight_data =
     [sample_flight 10 5 (Some ''1'') (Some ''AA'') (Some ''AA100''),
      sample_flight 10 20 (Some ''2'') (Some ''AA'') (Some ''AA100'')]"

definition null_terminal_data :: "flight list" where
  "null_terminal_data =
     [sample_flight 10 5 (Some ''B'') (Some ''AA'') (Some ''AA100''),
      sample_flight 10 7 None (Some ''DL'') (Some ''DL200'')]"

text \<open>
  A library and a world for \<^verbatim>\<open>load_data\<close>: dates are day numbers, the cache directory
  holds one file, fetched on 2022-11-03 at 06:00, and the call is made at 07:00.
\<close>

definition sample_cache :: raw_table where
  "sample_cache =
     \<lparr>columns = [''dep_time'', ''dep_terminal'', ''airline_iata'', ''flight_iata'', ''timestamp_api_call''],
      rows = [\<lparr>dep_time = Text ''2022-11-04 10:05'', dep_terminal = Some ''B'',
               airline_iata = Some ''AA'', flight_iata = Some ''AA100'',
               timestamp_api_call = Text ''2022-11-03 06:00:00''\<rparr>]\<rparr>"

definition sample_library :: "nat library" where
  "sample_library =
     \<lparr>strptime = (\<lambda>s. if s = ''20221103'' then Some 19299
                      else if s = ''20221104'' then Some 19300 else None),
      strftime = (\<lambda>d. if d = 19299 then ''20221103'' else ''20221104''),
      read_csv = (\<lambda>text. if text = ''cache of 2022-11-03'' then Inr sample_cache else Inl ParserError),
      to_csv = (\<lambda>t. ''written''),
      to_datetime = (\<lambda>s. if s = ''2022-11-03 06:00:00'' then Some (at_time 19299 6 0)
                         else if s = ''2022-11-04 10:05'' then Some (at_time 19300 10 5) else None)\<rparr>"

definition sample_world :: "nat \<Rightarrow> reply \<Rightarrow> nat world" where
  "sample_world d rep =
     \<lparr>today = d, now = at_time 19300 7 0,
      glob = (\<lambda>p. if p = ''data/lax_flights_*.csv'' then [''data/lax_flights_20221103.csv''] else []),
      files = [''data/lax_flights_20221103.csv'' \<mapsto> ''cache of 2022-11-03''],
      writable = (\<lambda>p. True),
      api = (\<lambda>a. rep)\<rparr>"

definition sample_dataset :: dataset where
  "sample_dataset =
     \<lparr>columns = [''dep_time'', ''dep_terminal'', ''airline_iata'', ''flight_iata'', ''timestamp_api_call''],
      rows = [\<lparr>dep_time = Some (at_time 19300 10 5), dep_terminal = Some ''B'',
               airline_iata = Some ''AA'', flight_iata = Some ''AA100'',
               timestamp_api_call = Some (at_time 19299 6 0)\<rparr>]\<rparr>"















section \<open>Sets behind the summaries\<close>

text \<open>The terminals of a dataset, and the flight identifiers listed under a terminal.\<close>

definition flights_at :: "flight list \<Rightarrow> string \<Rightarrow> string set" where
  "flights_at d t = {f. \<exists>r\<in>set d. dep_terminal r = Some t \<and> flight_iata r = Some f}"

definition terminals_of :: "flight list \<Rightarrow> string set" where
  "terminals_of d = {t. \<exists>r\<in>set d. dep_terminal r = Some t}"

section \<open>The per-minute histogram\<close>


lemma dt_minute_range: "0 \<le> dt_minute t \<and> dt_minute t < 60"
  by (simp add: dt_minute_def)

lemma bin_index_minute: "0 \<le> v \<Longrightarrow> v < 60 \<Longrightarrow> bin_index 60 0 60 v = nat v"
  by (simp add: bin_index_def Let_def)

lemma somes_Cons: "somes (x # xs) = (case x of None \<Rightarrow> [] | Some v \<Rightarrow> [v]) @ somes xs"
  by (simp add: somes_def)

lemma somes_Nil: "somes [] = []"
  by (simp add: somes_def)

lemma set_somes: "set (somes xs) = {v. Some v \<in> set xs}"
  by (induction xs) (auto simp: somes_def split: option.splits)

lemma count_index_sum:
  "(\<And>i. i \<in> set xs \<Longrightarrow> i < n) \<Longrightarrow>
   sum_list (map (\<lambda>b. length (filter (\<lambda>i. i = b) xs)) [0..<n]) = length xs"
proof (induction xs)
  case Nil
  then show ?case by simp
next
  case (Cons x xs)
  have x: "x < n" using Cons.prems by simp
  have one: "sum_list (map (\<lambda>b. if x = b then 1 else 0) [0..<n]) = (1::nat)"
    using x by (simp add: interv_sum_list_conv_sum_set_nat)
  have "sum_list (map (\<lambda>b. length (filter (\<lambda>i. i = b) (x # xs))) [0..<n])
      = sum_list (map (\<lambda>b. (if x = b then 1 else 0) + length (filter (\<lambda>i. i = b) xs)) [0..<n])"
    by (rule arg_cong [where f = sum_list]) (rule map_cong, auto)
  also have "\<dots> = sum_list (map (\<lambda>b. if x = b then 1 else 0) [0..<n])
                  + sum_list (map (\<lambda>b. length (filter (\<lambda>i. i = b) xs)) [0..<n])"
    by (simp add: sum_list_addf)
  also have "\<dots> = 1 + length xs"
    using one Cons.IH Cons.prems by simp
  finally show ?case by simp
qed

lemma hist_indices:
  "map (bin_index 60 0 60)
     (concat (map (\<lambda>x. case x of None \<Rightarrow> [] | Some v \<Rightarrow> if 0 \<le> v \<and> v \<le> 60 then [v] else [])
        (map (\<lambda>r. map_option dt_minute (dep_time r)) d)))
   = map nat (somes (map (\<lambda>r. map_option dt_minute (dep_time r)) d))"
proof (induction d)
  case Nil
  then show ?case by (simp add: somes_def)
next
  case (Cons r d)
  show ?case
  proof (cases "dep_time r")
    case None
    then show ?thesis using Cons.IH by (simp add: somes_def)
  next
    case (Some ts)
    have "0 \<le> dt_minute ts" "dt_minute ts < 60" using dt_minute_range by auto
    then show ?thesis using Cons.IH Some by (simp add: somes_def bin_index_minute)
  qed
qed

lemma count_minute:
  "m < 60 \<Longrightarrow> length (filter (\<lambda>i. i = m) (map nat (somes (map (\<lambda>r. map_option dt_minute (dep_time r)) d))))
   = length (filter (\<lambda>r. map_option dt_minute (dep_time r) = Some (int m)) d)"
proof (induction d)
  case Nil
  then show ?case by (simp add: somes_def)
next
  case (Cons r d)
  show ?case
  proof (cases "dep_time r")
    case None
    then show ?thesis using Cons by (simp add: somes_def)
  next
    case (Some ts)
    have "0 \<le> dt_minute ts" using dt_minute_range by auto
    then have "nat (dt_minute ts) = m \<longleftrightarrow> dt_minute ts = int m" by auto
    then show ?thesis using Cons Some by (simp add: somes_def)
  qed
qed

lemma length_somes_minutes:
  "length (somes (map (\<lambda>r. map_option dt_minute (dep_time r)) d)) = length (filter (\<lambda>r. dep_time r \<noteq> None) d)"
  by (induction d) (auto simp: somes_def)

lemma somes_minutes_range:
  "v \<in> set (somes (map (\<lambda>r. map_option dt_minute (dep_time r)) d)) \<Longrightarrow> 0 \<le> v \<and> v < 60"
proof (induction d)
  case Nil
  then show ?case by (simp add: somes_def)
next
  case (Cons r d)
  then show ?case
    by (cases "dep_time r") (auto simp: somes_Cons dt_minute_range)
qed

lemma hist_eq:
  "np_histogram (map (\<lambda>r. map_option dt_minute (dep_time r)) d) 60 0 60
   = map (\<lambda>m. length (filter (\<lambda>r. map_option dt_minute (dep_time r) = Some (int m)) d)) [0..<60]"
proof -
  have "\<And>m. m \<in> set [0..<60] \<Longrightarrow>
      length (filter (\<lambda>i. i = m) (map nat (somes (map (\<lambda>r. map_option dt_minute (dep_time r)) d))))
      = length (filter (\<lambda>r. map_option dt_minute (dep_time r) = Some (int m)) d)"
    using count_minute by simp
  then show ?thesis
    unfolding np_histogram_def Let_def hist_indices by (rule map_cong [OF refl])
qed

lemma hist_sum:
  "sum_list (np_histogram (map (\<lambda>r. map_option dt_minute (dep_time r)) d) 60 0 60)
   = length (filter (\<lambda>r. dep_time r \<noteq> None) d)"
proof -
  let ?idx = "map nat (somes (map (\<lambda>r. map_option dt_minute (dep_time r)) d))"
  have in_range: "\<And>i. i \<in> set ?idx \<Longrightarrow> i < 60"
  proof -
    fix i assume "i \<in> set ?idx"
    then obtain v where v: "i = nat v" "v \<in> set (somes (map (\<lambda>r. map_option dt_minute (dep_time r)) d))"
      by auto
    then show "i < 60" using somes_minutes_range [of v d] by auto
  qed
  have "sum_list (np_histogram (map (\<lambda>r. map_option dt_minute (dep_time r)) d) 60 0 60)
        = sum_list (map (\<lambda>b. length (filter (\<lambda>i. i = b) ?idx)) [0..<60])"
    unfolding np_histogram_def Let_def hist_indices ..
  also have "\<dots> = length ?idx" using in_range by (rule count_index_sum)
  also have "\<dots> = length (filter (\<lambda>r. dep_time r \<noteq> None) d)"
    by (simp add: length_somes_minutes)
  finally show ?thesis .
qed

text \<open>
  Claim C3. For every dataset and every filter (any hour, 0-23 included, and any terminal
  or none), the table of \<^verbatim>\<open>calculate_data_by_hour\<close> has exactly 60 rows, for the minutes
  0 to 59 in order; the count of minute \<open>m\<close> is the number of rows of the filtered data
  whose departure minute is \<open>m\<close> (rows, not distinct flights); and the 60 counts add up to
  the number of rows of the filtered data that have a departure time.
\<close>

theorem calculate_data_by_hour_buckets:
  "columns (calculate_data_by_hour data h t) = [''minute'', ''departures''] \<and>
   length (rows (calculate_data_by_hour data h t)) = 60 \<and>
   map fst (rows (calculate_data_by_hour data h t)) = [0..<60] \<and>
   map snd (rows (calculate_data_by_hour data h t))
     = map (\<lambda>m. length (filter (\<lambda>r. map_option dt_minute (dep_time r) = Some (int m))
                          (filter_data data h t))) [0..<60] \<and>
   sum_list (map snd (rows (calculate_data_by_hour data h t)))
     = length (filter (\<lambda>r. dep_time r \<noteq> None) (filter_data data h t))"
proof -
  let ?d = "filter_data data h t"
  let ?hist = "np_histogram (map (\<lambda>r. map_option dt_minute (dep_time r)) ?d) 60 0 60"
  have len: "length ?hist = 60" by (simp add: np_histogram_def)
  have rows: "rows (calculate_data_by_hour data h t) = zip [0..<60] ?hist"
    by (simp add: calculate_data_by_hour_def Let_def)
  have snd: "map snd (zip [0..<60] ?hist) = ?hist" using len by simp
  have fst: "map fst (zip [0..<60] ?hist) = [0..<60]" using len by simp
  show ?thesis
    unfolding rows snd fst using len hist_eq [of ?d] hist_sum [of ?d]
    by (simp add: calculate_data_by_hour_def Let_def)
qed

section \<open>Filtering\<close>

lemma sample_hour: "dt_hour (at_time 19300 10 5) = 10" "dt_hour (at_time 19300 11 0) = 11"
  "dt_hour (at_time 19300 11 30) = 11" "dt_hour (at_time 19300 10 20) = 10"
  by (simp_all add: dt_hour_def at_time_def)

text \<open>
  Claim C2 says that \<^verbatim>\<open>filter_data\<close> with an hour \<open>h\<close> of 0-23 keeps exactly the rows
  whose departure hour is \<open>h\<close>. At hour 0 the test of line 72 is false and no row is
  dropped: on three flights that leave at 10:05, 11:00 and 11:30, the filter for hour 0
  returns all three, although none of them leaves in hour 0.
\<close>

theorem filter_data_hour_zero_keeps_all:
  "filter_data scenario_data (Some 0) None = scenario_data \<and>
   filter (\<lambda>r. map_option dt_hour (dep_time r) = Some 0) scenario_data = []"
  by (simp add: filter_data_def truthy_int_def truthy_str_def scenario_data_def sample_flight_def
      sample_hour)

lemma sample_hour_7: "dt_hour (at_time 19300 10 7) = 10"
  by (simp add: dt_hour_def at_time_def)

text \<open>
  For an hour other than 0 and a terminal other than the empty string, \<^verbatim>\<open>filter_data\<close>
  keeps exactly the rows of that hour, and of that terminal when one is given; a filter
  left out restricts nothing.
\<close>

theorem filter_data_nonzero_hour:
  assumes "h \<noteq> 0" and "t \<noteq> []"
  shows "filter_data data (Some h) None
           = filter (\<lambda>r. map_option dt_hour (dep_time r) = Some h) data \<and>
         filter_data data (Some h) (Some t)
           = filter (\<lambda>r. map_option dt_hour (dep_time r) = Some h \<and> dep_terminal r = Some t) data \<and>
         filter_data data None (Some t) = filter (\<lambda>r. dep_terminal r = Some t) data \<and>
         filter_data data None None = data"
  using assms by (simp add: filter_data_def truthy_int_def truthy_str_def Let_def conj_commute)

text \<open>The sample flights at hour 10: one at terminal B, none at terminal 1.\<close>

theorem filter_data_nonzero_hour_witness:
  "(10::int) \<noteq> 0 \<and> ''B'' \<noteq> [] \<and>
   filter_data scenario_data (Some 10) (Some ''B'')
     = [sample_flight 10 5 (Some ''B'') (Some ''AA'') (Some ''AA100'')] \<and>
   filter_data scenario_data (Some 10) (Some ''1'') = []"
proof -
  have a: "(10::int) \<noteq> 0" by simp
  have b: "''B'' \<noteq> []" "''1'' \<noteq> []" by simp_all
  show ?thesis
    using filter_data_nonzero_hour [OF a b(1), of scenario_data]
      filter_data_nonzero_hour [OF a b(2), of scenario_data]
    by (simp add: scenario_data_def sample_flight_def sample_hour)
qed

section \<open>Summaries by terminal and by airline\<close>

lemma filter_data_None:
  "filter_data data h None =
     (if truthy_int h then filter (\<lambda>r. map_option dt_hour (dep_time r) = h) data else data)"
  by (simp add: filter_data_def truthy_str_def)

lemma filter_data_filter:
  "filter_data (filter P data) h None = filter P (filter_data data h None)"
  by (auto simp: filter_data_None intro: filter_cong)

lemma set_somes_map: "set (somes (map key d)) = {k. \<exists>r\<in>set d. key r = Some k}"
  by (induction d) (auto simp: somes_Cons somes_Nil split: option.splits)

lemma nunique_card: "nunique xs = card {v. Some v \<in> set xs}"
  by (simp add: nunique_def length_remdups_card_conv set_somes)

lemma group_keys_sorted_list:
  "group_keys key d = sorted_list_of_set {k. \<exists>r\<in>set d. key r = Some k}"
  unfolding group_keys_def using set_somes_map [of key d]
  by (metis sorted_list_of_set_sort_remdups)

lemma finite_keys: "finite {k. \<exists>r\<in>set d. key r = Some k}"
  using set_somes_map [of key d] by (metis List.finite_set)

lemma group_flights_card:
  "nunique (map flight_iata (group_rows key d k))
   = card {f. \<exists>r\<in>set d. key r = Some k \<and> flight_iata r = Some f}"
proof -
  have "{v. Some v \<in> set (map flight_iata (group_rows key d k))}
        = {f. \<exists>r\<in>set d. key r = Some k \<and> flight_iata r = Some f}"
    using set_somes_map [of flight_iata "group_rows key d k"]
    by (auto simp: group_rows_def set_somes)
  then show ?thesis by (simp add: nunique_card)
qed

lemma terminal_rows:
  "rows (group_data_by_terminal data h)
   = map (\<lambda>t. (t, card {f. \<exists>r\<in>set (filter_data data h None).
                          dep_terminal r = Some t \<and> flight_iata r = Some f}))
         (sorted_list_of_set {t. \<exists>r\<in>set (filter_data data h None). dep_terminal r = Some t})"
  by (simp add: group_data_by_terminal_def Let_def group_flights_card group_keys_sorted_list)

lemma truthy_int_Some: "truthy_int (Some h) = (h \<noteq> 0)"
  by (simp add: truthy_int_def)

lemma scenario_A:
  assumes B: "list_all (\<lambda>r. dep_terminal r = Some ''B'') data"
    and one: "filter (\<lambda>r. map_option dt_hour (dep_time r) = Some 10) data = [r]"
    and f: "flight_iata r \<noteq> None"
  shows "rows (group_data_by_terminal data (Some 10)) = [(''B'', 1)]"
proof -
  have sub: "filter_data data (Some 10) None = [r]"
    using one by (simp add: filter_data_None truthy_int_Some)
  have "r \<in> set (filter (\<lambda>r. map_option dt_hour (dep_time r) = Some 10) data)"
    using one by simp
  then have "r \<in> set data" by simp
  then have t: "dep_terminal r = Some ''B''"
    using B by (simp add: list_all_iff)
  obtain fl where fl: "flight_iata r = Some fl" using f by auto
  show ?thesis
    by (simp add: group_data_by_terminal_def sub group_keys_def group_rows_def nunique_def
        somes_def t fl)
qed

lemma hist_empty: "np_histogram [] 60 0 60 = replicate 60 0"
proof -
  have "np_histogram [] 60 0 60 = map (\<lambda>b. 0) [0..<60]"
    by (simp add: np_histogram_def)
  also have "\<dots> = replicate 60 0"
    by (simp add: map_replicate_const)
  finally show ?thesis .
qed

lemma somes_map_filter:
  "(\<And>r. key r \<noteq> None \<Longrightarrow> P r) \<Longrightarrow> somes (map key (filter P d)) = somes (map key d)"
proof (induction d)
  case Nil
  then show ?case by simp
next
  case (Cons r d)
  then show ?case by (cases "key r") (auto simp: somes_Cons)
qed

lemma group_keys_filter:
  assumes "\<And>r. key r \<noteq> None \<Longrightarrow> P r"
  shows "group_keys key (filter P d) = group_keys key d"
proof -
  have "somes (map key (filter P d)) = somes (map key d)"
    by (rule somes_map_filter) (rule assms)
  then show ?thesis by (simp only: group_keys_def)
qed

lemma group_rows_filter:
  assumes "\<And>r. key r \<noteq> None \<Longrightarrow> P r"
  shows "group_rows key (filter P d) k = group_rows key d k"
  unfolding group_rows_def filter_filter using assms by (intro filter_cong) auto

lemma terminal_drops_null:
  "group_data_by_terminal (filter (\<lambda>r. dep_terminal r \<noteq> None) data) h = group_data_by_terminal data h"
proof -
  have k: "group_keys dep_terminal (filter (\<lambda>r. dep_terminal r \<noteq> None) sub)
           = group_keys dep_terminal sub" for sub :: "flight list"
    by (rule group_keys_filter)
  have g: "group_rows dep_terminal (filter (\<lambda>r. dep_terminal r \<noteq> None) sub) t
           = group_rows dep_terminal sub t" for sub :: "flight list" and t
    by (rule group_rows_filter)
  show ?thesis
    unfolding group_data_by_terminal_def Let_def filter_data_filter k g ..
qed

lemma terminal_airline_None: "terminal_airline r \<noteq> None \<Longrightarrow> dep_terminal r \<noteq> None"
  by (auto simp: terminal_airline_def split: option.splits)

lemma airline_drops_null:
  "group_data_by_airline (filter (\<lambda>r. dep_terminal r \<noteq> None) data) h = group_data_by_airline data h"
proof -
  have k: "group_keys terminal_airline (filter (\<lambda>r. dep_terminal r \<noteq> None) sub)
           = group_keys terminal_airline sub" for sub :: "flight list"
    by (rule group_keys_filter) (rule terminal_airline_None)
  have g: "group_rows terminal_airline (filter (\<lambda>r. dep_terminal r \<noteq> None) sub) k
           = group_rows terminal_airline sub k" for sub :: "flight list" and k
    by (rule group_rows_filter) (rule terminal_airline_None)
  show ?thesis
    unfolding group_data_by_airline_def Let_def filter_data_filter k g ..
qed

lemma finite_terminals_of: "finite (terminals_of d)"
  unfolding terminals_of_def by (rule finite_keys)

lemma finite_flights_at: "finite (flights_at d t)"
proof -
  have "flights_at d t \<subseteq> {f. \<exists>r\<in>set d. flight_iata r = Some f}"
    by (auto simp: flights_at_def)
  then show ?thesis using finite_keys [of d flight_iata] by (rule finite_subset)
qed

lemma terminal_count_sum:
  "sum_list (map snd (rows (group_data_by_terminal data h)))
   = (\<Sum>t\<in>terminals_of (filter_data data h None). card (flights_at (filter_data data h None) t))"
proof -
  let ?sub = "filter_data data h None"
  have "map snd (rows (group_data_by_terminal data h))
        = map (\<lambda>t. card (flights_at ?sub t)) (sorted_list_of_set (terminals_of ?sub))"
    by (simp add: terminal_rows flights_at_def terminals_of_def comp_def)
  then have "sum_list (map snd (rows (group_data_by_terminal data h)))
        = sum_list (map (\<lambda>t. card (flights_at ?sub t)) (sorted_list_of_set (terminals_of ?sub)))"
    by simp
  also have "\<dots> = (\<Sum>t\<in>set (sorted_list_of_set (terminals_of ?sub)). card (flights_at ?sub t))"
    by (rule sum_list_distinct_conv_sum_set) simp
  also have "\<dots> = (\<Sum>t\<in>terminals_of ?sub. card (flights_at ?sub t))"
    using finite_terminals_of [of ?sub] by simp
  finally show ?thesis .
qed

lemma nunique_flights: "nunique (map flight_iata d) = card {f. \<exists>r\<in>set d. flight_iata r = Some f}"
  unfolding nunique_def length_remdups_card_conv set_somes_map ..

lemma length_somes_le: "length (somes xs) \<le> length xs"
  by (induction xs) (auto simp: somes_Cons somes_Nil split: option.splits)

lemma null_terminal_flights_card:
  "card {f. \<exists>r\<in>set d. dep_terminal r = None \<and> flight_iata r = Some f}
   \<le> length (filter (\<lambda>r. dep_terminal r = None) d)"
proof -
  let ?n = "filter (\<lambda>r. dep_terminal r = None) d"
  have "{f. \<exists>r\<in>set d. dep_terminal r = None \<and> flight_iata r = Some f}
        = {f. \<exists>r\<in>set ?n. flight_iata r = Some f}"
    by auto
  then have "card {f. \<exists>r\<in>set d. dep_terminal r = None \<and> flight_iata r = Some f}
        = nunique (map flight_iata ?n)"
    by (simp add: nunique_flights)
  also have "\<dots> \<le> length (somes (map flight_iata ?n))"
    unfolding nunique_def by (rule length_remdups_leq)
  also have "\<dots> \<le> length ?n"
    using length_somes_le [of "map flight_iata ?n"] by simp
  finally show ?thesis .
qed

lemma terminal_count_lower_bound:
  "nunique (map flight_iata (filter_data data h None))
   \<le> sum_list (map snd (rows (group_data_by_terminal data h)))
     + length (filter (\<lambda>r. dep_terminal r = None) (filter_data data h None))"
proof -
  let ?sub = "filter_data data h None"
  let ?F = "{f. \<exists>r\<in>set ?sub. flight_iata r = Some f}"
  let ?N = "{f. \<exists>r\<in>set ?sub. dep_terminal r = None \<and> flight_iata r = Some f}"
  let ?U = "\<Union>t\<in>terminals_of ?sub. flights_at ?sub t"
  have finU: "finite ?U"
    using finite_terminals_of finite_flights_at by blast
  have finN: "finite ?N"
    using finite_keys [of ?sub flight_iata] by (rule rev_finite_subset) auto
  have "?F \<subseteq> ?U \<union> ?N"
  proof
    fix f assume "f \<in> ?F"
    then obtain r where r: "r \<in> set ?sub" "flight_iata r = Some f" by auto
    show "f \<in> ?U \<union> ?N"
    proof (cases "dep_terminal r")
      case None
      then show ?thesis using r by auto
    next
      case (Some t)
      then have "t \<in> terminals_of ?sub" "f \<in> flights_at ?sub t"
        using r by (auto simp: terminals_of_def flights_at_def)
      then show ?thesis by blast
    qed
  qed
  then have "card ?F \<le> card (?U \<union> ?N)"
    using finU finN by (intro card_mono) auto
  also have "\<dots> \<le> card ?U + card ?N" by (rule card_Un_le)
  also have "card ?U \<le> (\<Sum>t\<in>terminals_of ?sub. card (flights_at ?sub t))"
    using finite_terminals_of by (rule card_UN_le)
  finally have "card ?F \<le> (\<Sum>t\<in>terminals_of ?sub. card (flights_at ?sub t)) + card ?N"
    by simp
  then show ?thesis
    using null_terminal_flights_card [of ?sub]
    by (simp add: nunique_flights terminal_count_sum)
qed

lemma terminal_count_equality:
  assumes nn: "\<forall>r\<in>set (filter_data data h None). dep_terminal r \<noteq> None"
    and one: "\<forall>r\<in>set (filter_data data h None). \<forall>r'\<in>set (filter_data data h None).
                flight_iata r \<noteq> None \<and> flight_iata r = flight_iata r' \<longrightarrow> dep_terminal r = dep_terminal r'"
  shows "sum_list (map snd (rows (group_data_by_terminal data h)))
         = nunique (map flight_iata (filter_data data h None))"
proof -
  let ?sub = "filter_data data h None"
  let ?F = "{f. \<exists>r\<in>set ?sub. flight_iata r = Some f}"
  have F: "?F = (\<Union>t\<in>terminals_of ?sub. flights_at ?sub t)"
  proof (intro equalityI subsetI)
    fix f assume "f \<in> ?F"
    then obtain r where r: "r \<in> set ?sub" "flight_iata r = Some f" by auto
    then obtain t where "dep_terminal r = Some t" using nn by auto
    then have "t \<in> terminals_of ?sub" "f \<in> flights_at ?sub t"
      using r by (auto simp: terminals_of_def flights_at_def)
    then show "f \<in> (\<Union>t\<in>terminals_of ?sub. flights_at ?sub t)" by blast
  next
    fix f assume "f \<in> (\<Union>t\<in>terminals_of ?sub. flights_at ?sub t)"
    then show "f \<in> ?F" by (auto simp: flights_at_def)
  qed
  have disj: "\<forall>t\<in>terminals_of ?sub. \<forall>u\<in>terminals_of ?sub.
                t \<noteq> u \<longrightarrow> flights_at ?sub t \<inter> flights_at ?sub u = {}"
  proof (intro ballI impI)
    fix t u :: string
    assume tu: "t \<noteq> u"
    show "flights_at ?sub t \<inter> flights_at ?sub u = {}"
    proof (rule ccontr)
      assume "flights_at ?sub t \<inter> flights_at ?sub u \<noteq> {}"
      then obtain f where "f \<in> flights_at ?sub t" "f \<in> flights_at ?sub u" by auto
      then obtain r r' where
        "r \<in> set ?sub" "dep_terminal r = Some t" "flight_iata r = Some f"
        "r' \<in> set ?sub" "dep_terminal r' = Some u" "flight_iata r' = Some f"
        by (auto simp: flights_at_def)
      then show False using one tu by fastforce
    qed
  qed
  have "card (\<Union>t\<in>terminals_of ?sub. flights_at ?sub t)
        = (\<Sum>t\<in>terminals_of ?sub. card (flights_at ?sub t))"
    using finite_terminals_of finite_flights_at disj by (intro card_UN_disjoint) auto
  then show ?thesis
    by (simp add: terminal_count_sum nunique_flights F)
qed

text \<open>
  Claim C4. \<^verbatim>\<open>group_data_by_terminal\<close> works on \<open>filter_data data h None\<close> (the hour
  filter alone, no terminal), has one row per terminal of that subset, in order, and
  counts for each terminal the distinct flight identifiers of its rows, so a repeated
  identifier counts once. In particular, when every row of the dataset is at terminal B and
  exactly one row departs in hour 10 (and carries a flight identifier), the summary for
  hour 10 is the single row (B, 1), whatever the hours of the other rows.
\<close>

theorem group_data_by_terminal_distinct_flights:
  "columns (group_data_by_terminal data h) = [''dep_terminal'', ''count_flights''] \<and>
   rows (group_data_by_terminal data h)
     = map (\<lambda>t. (t, card {f. \<exists>r\<in>set (filter_data data h None).
                              dep_terminal r = Some t \<and> flight_iata r = Some f}))
           (sorted_list_of_set {t. \<exists>r\<in>set (filter_data data h None). dep_terminal r = Some t}) \<and>
   (list_all (\<lambda>r. dep_terminal r = Some ''B'') data \<and>
    filter (\<lambda>r. map_option dt_hour (dep_time r) = Some 10) data = [r] \<and>
    flight_iata r \<noteq> None
    \<longrightarrow> rows (group_data_by_terminal data (Some 10)) = [(''B'', 1)])"
  using terminal_rows [of data h] scenario_A [of data r]
  by (simp add: group_data_by_terminal_def Let_def)

text \<open>Claim C4 on three flights at terminal B, at 10:05, 11:00 and 11:30.\<close>

theorem group_data_by_terminal_distinct_flights_witness:
  "list_all (\<lambda>r. dep_terminal r = Some ''B'') scenario_data \<and>
   filter (\<lambda>r. map_option dt_hour (dep_time r) = Some 10) scenario_data
     = [sample_flight 10 5 (Some ''B'') (Some ''AA'') (Some ''AA100'')] \<and>
   flight_iata (sample_flight 10 5 (Some ''B'') (Some ''AA'') (Some ''AA100'')) \<noteq> None \<and>
   rows (group_data_by_terminal scenario_data (Some 10)) = [(''B'', 1)]"
proof -
  have a: "list_all (\<lambda>r. dep_terminal r = Some ''B'') scenario_data"
    by (simp add: scenario_data_def sample_flight_def)
  have b: "filter (\<lambda>r. map_option dt_hour (dep_time r) = Some 10) scenario_data
     = [sample_flight 10 5 (Some ''B'') (Some ''AA'') (Some ''AA100'')]"
    by (simp add: scenario_data_def sample_flight_def sample_hour)
  have c: "flight_iata (sample_flight 10 5 (Some ''B'') (Some ''AA'') (Some ''AA100'')) \<noteq> None"
    by (simp add: sample_flight_def)
  show ?thesis
    using a b c group_data_by_terminal_distinct_flights
      [of scenario_data "Some 10" "sample_flight 10 5 (Some ''B'') (Some ''AA'') (Some ''AA100'')"]
    by blast
qed

lemma sample_filter_9: "filter_data scenario_data (Some 9) t = []"
  by (simp add: filter_data_def truthy_int_def scenario_data_def sample_flight_def sample_hour Let_def)

text \<open>
  Claim C5 says that on an empty filtered subset the airport column of
  \<^verbatim>\<open>group_data_by_airline\<close> is absent. Line 113 assigns the column whether or not there
  are rows: for the sample flights and hour 9 the subset is empty, the summary has no row,
  and \<^verbatim>\<open>airport\<close> is among its columns.
\<close>

theorem airline_summary_empty_keeps_airport_column:
  "filter_data scenario_data (Some 9) None = [] \<and>
   rows (group_data_by_airline scenario_data (Some 9)) = [] \<and>
   ''airport'' \<in> set (columns (group_data_by_airline scenario_data (Some 9)))"
  by (simp add: sample_filter_9 group_data_by_airline_def group_keys_def somes_def)

text \<open>
  Claim C5, amended. When the filtered subset is empty, the histogram is 60 rows of count
  zero, and the terminal and airline summaries are tables without rows; the airline summary
  still has its four columns, \<^verbatim>\<open>airport\<close> included, with no cell in them.
\<close>

theorem empty_subset_zero_results:
  "(filter_data data h t = [] \<longrightarrow>
      columns (calculate_data_by_hour data h t) = [''minute'', ''departures''] \<and>
      rows (calculate_data_by_hour data h t) = zip [0..<60] (replicate 60 0)) \<and>
   (filter_data data h None = [] \<longrightarrow>
      group_data_by_terminal data h = \<lparr>columns = [''dep_terminal'', ''count_flights''], rows = []\<rparr> \<and>
      group_data_by_airline data h =
        \<lparr>columns = [''dep_terminal'', ''airline_iata'', ''count_flights'', ''airport''], rows = []\<rparr>)"
proof (intro conjI impI)
  assume "filter_data data h t = []"
  then show "rows (calculate_data_by_hour data h t) = zip [0..<60] (replicate 60 0)"
    by (simp add: calculate_data_by_hour_def hist_empty)
next
  show "columns (calculate_data_by_hour data h t) = [''minute'', ''departures'']"
    by (simp add: calculate_data_by_hour_def Let_def)
next
  assume e: "filter_data data h None = []"
  show "group_data_by_terminal data h = \<lparr>columns = [''dep_terminal'', ''count_flights''], rows = []\<rparr>"
    by (simp add: group_data_by_terminal_def e group_keys_def somes_def)
  show "group_data_by_airline data h =
        \<lparr>columns = [''dep_terminal'', ''airline_iata'', ''count_flights'', ''airport''], rows = []\<rparr>"
    by (simp add: group_data_by_airline_def e group_keys_def somes_def)
qed

text \<open>Claim C5, amended, on the sample flights at hour 9.\<close>

theorem empty_subset_zero_results_witness:
  "filter_data scenario_data (Some 9) (Some ''B'') = [] \<and>
   filter_data scenario_data (Some 9) None = [] \<and>
   rows (calculate_data_by_hour scenario_data (Some 9) (Some ''B'')) = zip [0..<60] (replicate 60 0) \<and>
   rows (group_data_by_terminal scenario_data (Some 9)) = [] \<and>
   rows (group_data_by_airline scenario_data (Some 9)) = [] \<and>
   columns (group_data_by_airline scenario_data (Some 9))
     = [''dep_terminal'', ''airline_iata'', ''count_flights'', ''airport'']"
  using empty_subset_zero_results [of scenario_data "Some 9" "Some ''B''"]
    sample_filter_9 [of "Some ''B''"] sample_filter_9 [of None]
  by simp

text \<open>
  Claim C8 says that the counts of the terminal summary add up to the number of distinct
  flight identifiers of the filtered subset when no terminal is missing. A flight
  identifier listed under two terminals is counted under each: two rows of flight AA100 at
  terminals 1 and 2 give counts that add up to 2, for one distinct identifier.
\<close>

theorem shared_flight_counted_per_terminal:
  "filter (\<lambda>r. dep_terminal r = None) (filter_data shared_flight_data (Some 10) None) = [] \<and>
   sum_list (map snd (rows (group_data_by_terminal shared_flight_data (Some 10)))) = 2 \<and>
   nunique (map flight_iata (filter_data shared_flight_data (Some 10) None)) = 1"
proof -
  have sub: "filter_data shared_flight_data (Some 10) None = shared_flight_data"
    by (simp add: filter_data_def truthy_int_def truthy_str_def shared_flight_data_def
        sample_flight_def sample_hour)
  show ?thesis
    unfolding group_data_by_terminal_def Let_def sub
    by (simp add: shared_flight_data_def sample_flight_def group_keys_def group_rows_def
        nunique_def somes_def)
qed

lemma length_filter_split:
  "length (filter P xs) = length (filter (\<lambda>x. P x \<and> Q x) xs) + length (filter (\<lambda>x. P x \<and> \<not> Q x) xs)"
  by (induction xs) auto

text \<open>
  Claim C8, amended. A row without a terminal takes no part in the terminal summary nor in
  the terminal-airline summary (both are those of the dataset without such rows), and is
  counted by the histogram when it has a departure time. The counts of the terminal summary
  add up to at least the number of distinct flight identifiers of the filtered subset minus
  the number of its rows without a terminal; they add up to exactly the number of distinct
  identifiers when no row of the subset lacks a terminal and no flight identifier occurs
  under two terminals.
\<close>

theorem null_terminal_rows_dropped_from_groups:
  "group_data_by_terminal data h
     = group_data_by_terminal (filter (\<lambda>r. dep_terminal r \<noteq> None) data) h \<and>
   group_data_by_airline data h
     = group_data_by_airline (filter (\<lambda>r. dep_terminal r \<noteq> None) data) h \<and>
   sum_list (map snd (rows (calculate_data_by_hour data h None)))
     = length (filter (\<lambda>r. dep_time r \<noteq> None \<and> dep_terminal r \<noteq> None) (filter_data data h None))
       + length (filter (\<lambda>r. dep_time r \<noteq> None \<and> dep_terminal r = None) (filter_data data h None)) \<and>
   int (nunique (map flight_iata (filter_data data h None)))
       - int (length (filter (\<lambda>r. dep_terminal r = None) (filter_data data h None)))
     \<le> int (sum_list (map snd (rows (group_data_by_terminal data h)))) \<and>
   ((\<forall>r\<in>set (filter_data data h None). dep_terminal r \<noteq> None) \<and>
    (\<forall>r\<in>set (filter_data data h None). \<forall>r'\<in>set (filter_data data h None).
        flight_iata r \<noteq> None \<and> flight_iata r = flight_iata r' \<longrightarrow> dep_terminal r = dep_terminal r')
    \<longrightarrow> sum_list (map snd (rows (group_data_by_terminal data h)))
        = nunique (map flight_iata (filter_data data h None)))"
proof (intro conjI impI)
  show "group_data_by_terminal data h
     = group_data_by_terminal (filter (\<lambda>r. dep_terminal r \<noteq> None) data) h"
    by (rule terminal_drops_null [symmetric])
  show "group_data_by_airline data h
     = group_data_by_airline (filter (\<lambda>r. dep_terminal r \<noteq> None) data) h"
    by (rule airline_drops_null [symmetric])
next
  let ?sub = "filter_data data h None"
  have rows: "map snd (rows (calculate_data_by_hour data h None))
        = np_histogram (map (\<lambda>r. map_option dt_minute (dep_time r)) ?sub) 60 0 60"
    by (simp add: calculate_data_by_hour_def Let_def np_histogram_def)
  have "length (filter (\<lambda>r. dep_time r \<noteq> None) ?sub)
        = length (filter (\<lambda>r. dep_time r \<noteq> None \<and> dep_terminal r \<noteq> None) ?sub)
          + length (filter (\<lambda>r. dep_time r \<noteq> None \<and> dep_terminal r = None) ?sub)"
    using length_filter_split [where P = "\<lambda>r. dep_time r \<noteq> None"
        and Q = "\<lambda>r. dep_terminal r \<noteq> None" and xs = ?sub]
    by simp
  then show "sum_list (map snd (rows (calculate_data_by_hour data h None)))
     = length (filter (\<lambda>r. dep_time r \<noteq> None \<and> dep_terminal r \<noteq> None) ?sub)
       + length (filter (\<lambda>r. dep_time r \<noteq> None \<and> dep_terminal r = None) ?sub)"
    unfolding rows hist_sum by simp
next
  show "int (nunique (map flight_iata (filter_data data h None)))
       - int (length (filter (\<lambda>r. dep_terminal r = None) (filter_data data h None)))
     \<le> int (sum_list (map snd (rows (group_data_by_terminal data h))))"
    using terminal_count_lower_bound [of data h] by linarith
next
  assume "(\<forall>r\<in>set (filter_data data h None). dep_terminal r \<noteq> None) \<and>
    (\<forall>r\<in>set (filter_data data h None). \<forall>r'\<in>set (filter_data data h None).
        flight_iata r \<noteq> None \<and> flight_iata r = flight_iata r' \<longrightarrow> dep_terminal r = dep_terminal r')"
  then show "sum_list (map snd (rows (group_data_by_terminal data h)))
        = nunique (map flight_iata (filter_data data h None))"
    using terminal_count_equality [of data h] by blast
qed

text \<open>
  Claim C8, amended, on two flights of hour 10, one of them without a terminal, and on the
  sample flights of hour 11.
\<close>

theorem null_terminal_rows_dropped_from_groups_witness:
  "filter_data null_terminal_data (Some 10) None = null_terminal_data \<and>
   rows (group_data_by_terminal null_terminal_data (Some 10)) = [(''B'', 1)] \<and>
   sum_list (map snd (rows (calculate_data_by_hour null_terminal_data (Some 10) None))) = 2 \<and>
   filter (\<lambda>r. dep_terminal r = None) (filter_data scenario_data (Some 11) None) = [] \<and>
   nunique (map flight_iata (filter_data scenario_data (Some 11) None)) = 2 \<and>
   sum_list (map snd (rows (group_data_by_terminal scenario_data (Some 11)))) = 2"
proof -
  have n: "filter_data null_terminal_data (Some 10) None = null_terminal_data"
    by (simp add: filter_data_def truthy_int_def truthy_str_def null_terminal_data_def
        sample_flight_def sample_hour sample_hour_7)
  have g: "rows (group_data_by_terminal (filter (\<lambda>r. dep_terminal r \<noteq> None) null_terminal_data) (Some 10))
           = [(''B'', 1)]"
    by (simp add: group_data_by_terminal_def filter_data_def truthy_int_def truthy_str_def
        null_terminal_data_def sample_flight_def sample_hour group_keys_def group_rows_def
        nunique_def somes_def)
  have s: "filter_data scenario_data (Some 11) None
           = [sample_flight 11 0 (Some ''B'') (Some ''DL'') (Some ''DL200''),
              sample_flight 11 30 (Some ''B'') (Some ''UA'') (Some ''UA300'')]"
    by (simp add: filter_data_def truthy_int_def truthy_str_def scenario_data_def
        sample_flight_def sample_hour)
  have h1: "\<forall>r\<in>set (filter_data scenario_data (Some 11) None). dep_terminal r \<noteq> None"
    by (simp add: s sample_flight_def)
  have h2: "\<forall>r\<in>set (filter_data scenario_data (Some 11) None).
              \<forall>r'\<in>set (filter_data scenario_data (Some 11) None).
                flight_iata r \<noteq> None \<and> flight_iata r = flight_iata r' \<longrightarrow> dep_terminal r = dep_terminal r'"
    by (simp add: s sample_flight_def)
  have u: "nunique (map flight_iata (filter_data scenario_data (Some 11) None)) = 2"
    by (simp add: s sample_flight_def nunique_def somes_def)
  have e: "filter (\<lambda>r. dep_terminal r = None) (filter_data scenario_data (Some 11) None) = []"
    by (simp add: s sample_flight_def)
  have c: "length (filter (\<lambda>r. dep_time r \<noteq> None \<and> dep_terminal r \<noteq> None) null_terminal_data)
           + length (filter (\<lambda>r. dep_time r \<noteq> None \<and> dep_terminal r = None) null_terminal_data) = 2"
    by (simp add: null_terminal_data_def sample_flight_def)
  note A = null_terminal_rows_dropped_from_groups [of null_terminal_data "Some 10"]
  note B = null_terminal_rows_dropped_from_groups [of scenario_data "Some 11"]
  from A have "group_data_by_terminal null_terminal_data (Some 10)
      = group_data_by_terminal (filter (\<lambda>r. dep_terminal r \<noteq> None) null_terminal_data) (Some 10)"
    by blast
  then have r1: "rows (group_data_by_terminal null_terminal_data (Some 10)) = [(''B'', 1)]"
    using g by simp
  from A have "sum_list (map snd (rows (calculate_data_by_hour null_terminal_data (Some 10) None)))
     = length (filter (\<lambda>r. dep_time r \<noteq> None \<and> dep_terminal r \<noteq> None)
                 (filter_data null_terminal_data (Some 10) None))
       + length (filter (\<lambda>r. dep_time r \<noteq> None \<and> dep_terminal r = None)
                 (filter_data null_terminal_data (Some 10) None))"
    by blast
  then have r2: "sum_list (map snd (rows (calculate_data_by_hour null_terminal_data (Some 10) None))) = 2"
    unfolding n using c by simp
  from B h1 h2 have "sum_list (map snd (rows (group_data_by_terminal scenario_data (Some 11))))
        = nunique (map flight_iata (filter_data scenario_data (Some 11) None))"
    by blast
  then have r3: "sum_list (map snd (rows (group_data_by_terminal scenario_data (Some 11)))) = 2"
    using u by simp
  show ?thesis
    using n r1 r2 e u r3 by blast
qed

section \<open>Loading the dataset\<close>

lemma sample_latest:
  "latest_csv sample_library (sample_world d rep) ''lax_flights_*.csv'' ''data/''
   = Some (''data/lax_flights_20221103.csv'', 19299)"
  by (simp add: latest_csv_def sample_library_def sample_world_def os_path_join_def slice_m12_m4_def)

lemma sample_read:
  "and_then (pd_read_csv sample_library (sample_world d rep) (Some ''data/lax_flights_20221103.csv''))
     (normalise sample_library) = Inr sample_dataset"
  by (simp add: and_then_def pd_read_csv_def sample_library_def sample_world_def normalise_def
      sample_cache_def to_datetime_cell_def with_times_def sample_dataset_def)

lemma latest_csv_api: "latest_csv lib (w\<lparr>api := x\<rparr>) fn fp = latest_csv lib w fn fp"
  by (simp add: latest_csv_def)

lemma latest_csv_now: "latest_csv lib (w\<lparr>now := t\<rparr>) fn fp = latest_csv lib w fn fp"
  by (simp add: latest_csv_def)

lemma pd_read_csv_api: "pd_read_csv lib (w\<lparr>api := x\<rparr>) p = pd_read_csv lib w p"
  by (cases p) (simp_all add: pd_read_csv_def)

lemma pd_read_csv_now: "pd_read_csv lib (w\<lparr>now := t\<rparr>) p = pd_read_csv lib w p"
  by (cases p) (simp_all add: pd_read_csv_def)

lemma load_data_fresh:
  assumes "latest_csv lib w fn fp = Some (name, today w)"
  shows "load_data lib w fn fp a =
         \<lparr>returned = and_then (pd_read_csv lib w (Some name)) (normalise lib),
          requests = 0, files_after = files w\<rparr>"
  using assms by (simp add: load_data_def Let_def)

lemma load_data_requests_le: "requests (load_data lib w fn fp a) \<le> 1"
  by (simp add: load_data_def Let_def split: reply.splits option.splits)

lemma load_data_stale:
  assumes "map_option snd (latest_csv lib w fn fp) \<noteq> Some (today w)"
  shows "load_data lib w fn fp a =
     (case api w a of
        NetworkError \<Rightarrow> \<lparr>returned = Inl ConnectionError, requests = 1, files_after = files w\<rparr>
      | MalformedJSON \<Rightarrow> \<lparr>returned = Inl JSONDecodeError, requests = 1, files_after = files w\<rparr>
      | Reply None \<Rightarrow>
          \<lparr>returned = and_then (pd_read_csv lib w (map_option fst (latest_csv lib w fn fp))) (normalise lib),
           requests = 1, files_after = files w\<rparr>
      | Reply (Some response) \<Rightarrow>
          (let data = set_timestamp_api_call (pd_DataFrame response) (now w);
               path = os_path_join fp (str_lower a @ ''_flights_'' @ strftime lib (today w) @ ''.csv'')
           in if writable w path
              then \<lparr>returned = normalise lib data, requests = 1,
                    files_after = (files w)(path \<mapsto> to_csv lib data)\<rparr>
              else \<lparr>returned = Inl OSError, requests = 1, files_after = files w\<rparr>))"
  using assms by (simp add: load_data_def Let_def)

lemma cached_hit:
  "singleton p (fn, fp, a) = Some data \<Longrightarrow>
   cached_load_data lib w p fn fp a = (\<lparr>returned = Inr data, requests = 0, files_after = files w\<rparr>, p)"
  by (simp add: cached_load_data_def)

lemma cached_returned_stored:
  assumes "returned (fst (cached_load_data lib w p fn fp a)) = Inr data"
  shows "singleton (snd (cached_load_data lib w p fn fp a)) (fn, fp, a) = Some data"
proof (cases "singleton p (fn, fp, a)")
  case None
  then show ?thesis
    using assms by (auto simp: cached_load_data_def Let_def split: sum.splits)
next
  case (Some d)
  then show ?thesis using assms by (simp add: cached_load_data_def)
qed

lemma cached_failure_not_stored:
  assumes "singleton p (fn, fp, a) = None" and "returned (load_data lib w fn fp a) = Inl e"
  shows "cached_load_data lib w p fn fp a = (load_data lib w fn fp a, p)"
  using assms by (simp add: cached_load_data_def Let_def)

lemma cached_requests_le: "requests (fst (cached_load_data lib w p fn fp a)) \<le> 1"
  using load_data_requests_le [of lib w fn fp a]
  by (auto simp: cached_load_data_def Let_def split: option.splits sum.splits)

text \<open>
  Claim C6 says that the provider issues at most one API call per calendar day per process.
  The singleton of line 23 stores returned values only: in one process, on one day, with a
  cache file of the day before and the network down, the first call raises after one
  request and the second call runs the body again, two requests in all.
\<close>

theorem failed_runs_repeat_request:
  "today (sample_world 19300 NetworkError) = 19300 \<and>
   requests (fst (cached_load_data sample_library (sample_world 19300 NetworkError) new_process
                    ''lax_flights_*.csv'' ''data/'' ''LAX''))
   + requests (fst (cached_load_data sample_library (sample_world 19300 NetworkError)
                    (snd (cached_load_data sample_library (sample_world 19300 NetworkError) new_process
                            ''lax_flights_*.csv'' ''data/'' ''LAX''))
                    ''lax_flights_*.csv'' ''data/'' ''LAX'')) = 2"
proof -
  let ?w = "sample_world 19300 NetworkError"
  have t: "today ?w = 19300" "api ?w a = NetworkError" for a
    by (simp_all add: sample_world_def)
  have s: "map_option snd (latest_csv sample_library ?w ''lax_flights_*.csv'' ''data/'') \<noteq> Some (today ?w)"
    by (simp add: sample_latest t)
  have l: "load_data sample_library ?w ''lax_flights_*.csv'' ''data/'' ''LAX''
           = \<lparr>returned = Inl ConnectionError, requests = 1, files_after = files ?w\<rparr>"
    by (simp add: load_data_stale [OF s] t)
  have c: "cached_load_data sample_library ?w new_process ''lax_flights_*.csv'' ''data/'' ''LAX''
           = (\<lparr>returned = Inl ConnectionError, requests = 1, files_after = files ?w\<rparr>, new_process)"
    by (simp add: cached_load_data_def new_process_def l)
  show ?thesis by (simp add: c t)
qed

text \<open>
  Claim C6, amended. When the date of the newest cache file is today's, \<^verbatim>\<open>load_data\<close>
  returns what reading that file gives, issues no request to the API, leaves the files as
  they are, and its outcome does not depend on what the API would have answered. A run of
  the body issues at most one request, and so does a call through the singleton. Once a call
  has returned a dataset, every later call of the process with the same arguments returns
  that dataset without a request and without touching the files, in whatever world; a call
  that raises stores nothing, so the next call runs the body again.
\<close>

theorem fresh_cache_no_request_memoised:
  "(latest_csv lib w csv_filename csv_filepath = Some (name, today w) \<longrightarrow>
      returned (load_data lib w csv_filename csv_filepath airport_iata)
        = and_then (pd_read_csv lib w (Some name)) (normalise lib) \<and>
      requests (load_data lib w csv_filename csv_filepath airport_iata) = 0 \<and>
      files_after (load_data lib w csv_filename csv_filepath airport_iata) = files w \<and>
      load_data lib (w\<lparr>api := other\<rparr>) csv_filename csv_filepath airport_iata
        = load_data lib w csv_filename csv_filepath airport_iata) \<and>
   requests (load_data lib w csv_filename csv_filepath airport_iata) \<le> 1 \<and>
   requests (fst (cached_load_data lib w p csv_filename csv_filepath airport_iata)) \<le> 1 \<and>
   (returned (fst (cached_load_data lib w p csv_filename csv_filepath airport_iata)) = Inr data \<longrightarrow>
      cached_load_data lib w' (snd (cached_load_data lib w p csv_filename csv_filepath airport_iata))
          csv_filename csv_filepath airport_iata
        = (\<lparr>returned = Inr data, requests = 0, files_after = files w'\<rparr>,
           snd (cached_load_data lib w p csv_filename csv_filepath airport_iata))) \<and>
   (singleton p (csv_filename, csv_filepath, airport_iata) = None \<and>
    returned (load_data lib w csv_filename csv_filepath airport_iata) = Inl e \<longrightarrow>
      cached_load_data lib w p csv_filename csv_filepath airport_iata
        = (load_data lib w csv_filename csv_filepath airport_iata, p))"
proof (intro conjI impI)
  assume l: "latest_csv lib w csv_filename csv_filepath = Some (name, today w)"
  have l': "latest_csv lib (w\<lparr>api := other\<rparr>) csv_filename csv_filepath
            = Some (name, today (w\<lparr>api := other\<rparr>))"
    using l by (simp add: latest_csv_api)
  note a = load_data_fresh [OF l, of airport_iata]
  note b = load_data_fresh [OF l', of airport_iata]
  show "returned (load_data lib w csv_filename csv_filepath airport_iata)
        = and_then (pd_read_csv lib w (Some name)) (normalise lib)"
    by (simp add: a)
  show "requests (load_data lib w csv_filename csv_filepath airport_iata) = 0"
    by (simp add: a)
  show "files_after (load_data lib w csv_filename csv_filepath airport_iata) = files w"
    by (simp add: a)
  show "load_data lib (w\<lparr>api := other\<rparr>) csv_filename csv_filepath airport_iata
        = load_data lib w csv_filename csv_filepath airport_iata"
    by (simp add: a b pd_read_csv_api)
next
  show "requests (load_data lib w csv_filename csv_filepath airport_iata) \<le> 1"
    by (rule load_data_requests_le)
  show "requests (fst (cached_load_data lib w p csv_filename csv_filepath airport_iata)) \<le> 1"
    by (rule cached_requests_le)
next
  assume "returned (fst (cached_load_data lib w p csv_filename csv_filepath airport_iata)) = Inr data"
  then have "singleton (snd (cached_load_data lib w p csv_filename csv_filepath airport_iata))
               (csv_filename, csv_filepath, airport_iata) = Some data"
    by (rule cached_returned_stored)
  then show "cached_load_data lib w' (snd (cached_load_data lib w p csv_filename csv_filepath airport_iata))
          csv_filename csv_filepath airport_iata
        = (\<lparr>returned = Inr data, requests = 0, files_after = files w'\<rparr>,
           snd (cached_load_data lib w p csv_filename csv_filepath airport_iata))"
    by (rule cached_hit)
next
  assume "singleton p (csv_filename, csv_filepath, airport_iata) = None \<and>
    returned (load_data lib w csv_filename csv_filepath airport_iata) = Inl e"
  then show "cached_load_data lib w p csv_filename csv_filepath airport_iata
        = (load_data lib w csv_filename csv_filepath airport_iata, p)"
    using cached_failure_not_stored by blast
qed

text \<open>
  Claim C6, amended, in a process that first runs with today's cache file on disk and the
  network down, is then called again a day later, and in a process whose first call raises.
\<close>

theorem fresh_cache_no_request_memoised_witness:
  "latest_csv sample_library (sample_world 19299 NetworkError) ''lax_flights_*.csv'' ''data/''
     = Some (''data/lax_flights_20221103.csv'', today (sample_world 19299 NetworkError)) \<and>
   returned (load_data sample_library (sample_world 19299 NetworkError) ''lax_flights_*.csv'' ''data/'' ''LAX'')
     = Inr sample_dataset \<and>
   requests (load_data sample_library (sample_world 19299 NetworkError) ''lax_flights_*.csv'' ''data/'' ''LAX'') = 0 \<and>
   files_after (load_data sample_library (sample_world 19299 NetworkError) ''lax_flights_*.csv'' ''data/'' ''LAX'')
     = files (sample_world 19299 NetworkError) \<and>
   returned (fst (cached_load_data sample_library (sample_world 19299 NetworkError) new_process
                    ''lax_flights_*.csv'' ''data/'' ''LAX'')) = Inr sample_dataset \<and>
   cached_load_data sample_library (sample_world 19300 NetworkError)
       (snd (cached_load_data sample_library (sample_world 19299 NetworkError) new_process
               ''lax_flights_*.csv'' ''data/'' ''LAX''))
       ''lax_flights_*.csv'' ''data/'' ''LAX''
     = (\<lparr>returned = Inr sample_dataset, requests = 0,
         files_after = files (sample_world 19300 NetworkError)\<rparr>,
        snd (cached_load_data sample_library (sample_world 19299 NetworkError) new_process
               ''lax_flights_*.csv'' ''data/'' ''LAX'')) \<and>
   singleton new_process (''lax_flights_*.csv'', ''data/'', ''LAX'') = None \<and>
   returned (load_data sample_library (sample_world 19300 NetworkError) ''lax_flights_*.csv'' ''data/'' ''LAX'')
     = Inl ConnectionError \<and>
   cached_load_data sample_library (sample_world 19300 NetworkError) new_process
       ''lax_flights_*.csv'' ''data/'' ''LAX''
     = (load_data sample_library (sample_world 19300 NetworkError) ''lax_flights_*.csv'' ''data/'' ''LAX'',
        new_process)"
proof -
  let ?f = "sample_world 19299 NetworkError"
  let ?s = "sample_world 19300 NetworkError"
  have l: "latest_csv sample_library ?f ''lax_flights_*.csv'' ''data/''
     = Some (''data/lax_flights_20221103.csv'', today ?f)"
    by (simp add: sample_latest) (simp add: sample_world_def)
  note F = fresh_cache_no_request_memoised
    [where lib = sample_library and w = "?f" and csv_filename = "''lax_flights_*.csv''"
      and csv_filepath = "''data/''" and name = "''data/lax_flights_20221103.csv''"
      and airport_iata = "''LAX''" and p = new_process and data = sample_dataset and w' = "?s"
      and e = ConnectionError]
  note S = fresh_cache_no_request_memoised
    [where lib = sample_library and w = "?s" and csv_filename = "''lax_flights_*.csv''"
      and csv_filepath = "''data/''" and name = "''data/lax_flights_20221103.csv''"
      and airport_iata = "''LAX''" and p = new_process and data = sample_dataset and w' = "?s"
      and e = ConnectionError]
  have r: "returned (load_data sample_library ?f ''lax_flights_*.csv'' ''data/'' ''LAX'') = Inr sample_dataset"
    using F l sample_read [of 19299 NetworkError] by simp
  have n: "singleton new_process (''lax_flights_*.csv'', ''data/'', ''LAX'') = None"
    by (simp add: new_process_def)
  have c: "returned (fst (cached_load_data sample_library ?f new_process
                    ''lax_flights_*.csv'' ''data/'' ''LAX'')) = Inr sample_dataset"
    using r n by (simp add: cached_load_data_def Let_def)
  have t: "today ?s = 19300" "api ?s a = NetworkError" for a
    by (simp_all add: sample_world_def)
  have st: "map_option snd (latest_csv sample_library ?s ''lax_flights_*.csv'' ''data/'') \<noteq> Some (today ?s)"
    by (simp add: sample_latest t)
  have e: "returned (load_data sample_library ?s ''lax_flights_*.csv'' ''data/'' ''LAX'') = Inl ConnectionError"
    by (simp add: load_data_stale [OF st] t)
  from F l have f1: "requests (load_data sample_library ?f ''lax_flights_*.csv'' ''data/'' ''LAX'') = 0"
    and f2: "files_after (load_data sample_library ?f ''lax_flights_*.csv'' ''data/'' ''LAX'') = files ?f"
    by blast+
  from F c have f3: "cached_load_data sample_library ?s
       (snd (cached_load_data sample_library ?f new_process ''lax_flights_*.csv'' ''data/'' ''LAX''))
       ''lax_flights_*.csv'' ''data/'' ''LAX''
     = (\<lparr>returned = Inr sample_dataset, requests = 0, files_after = files ?s\<rparr>,
        snd (cached_load_data sample_library ?f new_process ''lax_flights_*.csv'' ''data/'' ''LAX''))"
    by blast
  from S n e have f4: "cached_load_data sample_library ?s new_process ''lax_flights_*.csv'' ''data/'' ''LAX''
     = (load_data sample_library ?s ''lax_flights_*.csv'' ''data/'' ''LAX'', new_process)"
    by blast
  show ?thesis
    using l r f1 f2 c f3 n e f4 by blast
qed

lemma to_datetime_col_cells:
  "to_datetime_col lib cs = Inr ts \<Longrightarrow> map (to_datetime_cell lib) cs = map Inr ts"
proof (induction cs arbitrary: ts)
  case Nil
  then show ?case by simp
next
  case (Cons c cs)
  then show ?case by (auto split: sum.splits)
qed

lemma to_datetime_col_length: "to_datetime_col lib cs = Inr ts \<Longrightarrow> length ts = length cs"
  using to_datetime_col_cells [of lib cs ts] by (metis length_map)

lemma normalise_stamps:
  assumes "normalise lib raw = Inr ds"
  shows "length (rows ds) = length (rows raw) \<and>
         map (\<lambda>r. to_datetime_cell lib (timestamp_api_call r)) (rows raw)
           = map (\<lambda>r. Inr (timestamp_api_call r)) (rows ds)"
proof -
  from assms obtain deps stamps where
    d: "to_datetime_col lib (map dep_time (rows raw)) = Inr deps" and
    s: "to_datetime_col lib (map timestamp_api_call (rows raw)) = Inr stamps" and
    ds: "ds = \<lparr>columns = columns raw,
              rows = map (\<lambda>(r, d, s). with_times r d s) (zip (rows raw) (zip deps stamps))\<rparr>"
    by (auto simp: normalise_def split: if_splits sum.splits)
  have ld: "length deps = length (rows raw)"
    using to_datetime_col_length [OF d] by simp
  have ls: "length stamps = length (rows raw)"
    using to_datetime_col_length [OF s] by simp
  have "map timestamp_api_call (rows ds) = map (\<lambda>(r, d, s). s) (zip (rows raw) (zip deps stamps))"
    by (simp add: ds with_times_def comp_def case_prod_unfold)
  also have "\<dots> = map snd (map snd (zip (rows raw) (zip deps stamps)))"
    by (simp add: case_prod_unfold comp_def)
  also have "\<dots> = stamps"
    using ld ls by simp
  finally have st: "map timestamp_api_call (rows ds) = stamps" .
  have "map (\<lambda>r. to_datetime_cell lib (timestamp_api_call r)) (rows raw)
        = map (to_datetime_cell lib) (map timestamp_api_call (rows raw))"
    by (simp add: comp_def)
  also have "\<dots> = map Inr stamps"
    by (rule to_datetime_col_cells [OF s])
  also have "\<dots> = map (\<lambda>r. Inr (timestamp_api_call r)) (rows ds)"
    unfolding st [symmetric] by (simp add: comp_def)
  finally show ?thesis
    using ld ls by (simp add: ds)
qed

text \<open>
  Claim C1, amended. When the date of the newest cache file is not today's (or there is no
  cache file), a network error and a reply that is not JSON end \<^verbatim>\<open>load_data\<close> with
  the exception of the request, after one request and with the files untouched; only a
  JSON reply whose \<^verbatim>\<open>response\<close> is absent or null makes it read the newest cache file
  instead.
\<close>

theorem api_failure_propagates:
  assumes "map_option snd (latest_csv lib w csv_filename csv_filepath) \<noteq> Some (today w)"
  shows "(api w airport_iata = NetworkError \<longrightarrow>
            load_data lib w csv_filename csv_filepath airport_iata
              = \<lparr>returned = Inl ConnectionError, requests = 1, files_after = files w\<rparr>) \<and>
         (api w airport_iata = MalformedJSON \<longrightarrow>
            load_data lib w csv_filename csv_filepath airport_iata
              = \<lparr>returned = Inl JSONDecodeError, requests = 1, files_after = files w\<rparr>) \<and>
         (api w airport_iata = Reply None \<longrightarrow>
            load_data lib w csv_filename csv_filepath airport_iata
              = \<lparr>returned = and_then
                    (pd_read_csv lib w (map_option fst (latest_csv lib w csv_filename csv_filepath)))
                    (normalise lib),
                 requests = 1, files_after = files w\<rparr>)"
  by (simp add: load_data_stale [OF assms])

text \<open>
  Claim C1 says that a network error or a malformed reply is treated as an empty response
  and never reaches the caller. Lines 42-43 are outside any \<^verbatim>\<open>try\<close>: with a cache
  file of the day before on disk, the network error and the malformed reply are raised to
  the caller, while the empty response returns the dataset of that file.
\<close>

theorem network_error_not_treated_as_empty_response:
  "map_option snd (latest_csv sample_library (sample_world 19300 NetworkError) ''lax_flights_*.csv'' ''data/'')
     = Some 19299 \<and>
   today (sample_world 19300 NetworkError) = 19300 \<and>
   returned (load_data sample_library (sample_world 19300 NetworkError) ''lax_flights_*.csv'' ''data/'' ''LAX'')
     = Inl ConnectionError \<and>
   returned (load_data sample_library (sample_world 19300 MalformedJSON) ''lax_flights_*.csv'' ''data/'' ''LAX'')
     = Inl JSONDecodeError \<and>
   returned (load_data sample_library (sample_world 19300 (Reply None)) ''lax_flights_*.csv'' ''data/'' ''LAX'')
     = Inr sample_dataset"
proof -
  have t: "today (sample_world 19300 rep) = 19300" "api (sample_world 19300 rep) a = rep" for rep a
    by (simp_all add: sample_world_def)
  have s: "map_option snd (latest_csv sample_library (sample_world 19300 rep) ''lax_flights_*.csv'' ''data/'')
           \<noteq> Some (today (sample_world 19300 rep))" for rep
    by (simp add: sample_latest t)
  show ?thesis
    by (simp add: load_data_stale [OF s] t sample_latest sample_read)
qed

text \<open>Claim C1, amended, for each of the three replies, with a cache file of the day before.\<close>

theorem api_failure_propagates_witness:
  "load_data sample_library (sample_world 19300 NetworkError) ''lax_flights_*.csv'' ''data/'' ''LAX''
     = \<lparr>returned = Inl ConnectionError, requests = 1,
        files_after = files (sample_world 19300 NetworkError)\<rparr> \<and>
   load_data sample_library (sample_world 19300 MalformedJSON) ''lax_flights_*.csv'' ''data/'' ''LAX''
     = \<lparr>returned = Inl JSONDecodeError, requests = 1,
        files_after = files (sample_world 19300 MalformedJSON)\<rparr> \<and>
   load_data sample_library (sample_world 19300 (Reply None)) ''lax_flights_*.csv'' ''data/'' ''LAX''
     = \<lparr>returned = Inr sample_dataset, requests = 1,
        files_after = files (sample_world 19300 (Reply None))\<rparr>"
proof -
  have t: "today (sample_world 19300 rep) = 19300" "api (sample_world 19300 rep) a = rep" for rep a
    by (simp_all add: sample_world_def)
  have s: "map_option snd (latest_csv sample_library (sample_world 19300 rep) ''lax_flights_*.csv'' ''data/'')
           \<noteq> Some (today (sample_world 19300 rep))" for rep
    by (simp add: sample_latest t)
  show ?thesis
    using api_failure_propagates [OF s [of NetworkError], of "''LAX''"]
      api_failure_propagates [OF s [of MalformedJSON], of "''LAX''"]
      api_failure_propagates [OF s [of "Reply None"], of "''LAX''"]
    by (simp add: t sample_latest sample_read)
qed

text \<open>
  Claim C7. When there is no cache file (\<^verbatim>\<open>latest_csv_name\<close> is \<^verbatim>\<open>None\<close>) and the
  API gives no flight data, \<^verbatim>\<open>load_data\<close> returns no dataset but an error; for the
  empty response it is the ValueError of \<^verbatim>\<open>pd.read_csv(None)\<close>.
\<close>

theorem no_cache_no_response_fails:
  assumes "latest_csv lib w csv_filename csv_filepath = None"
    and "\<nexists>response. api w airport_iata = Reply (Some response)"
  shows "isl (returned (load_data lib w csv_filename csv_filepath airport_iata)) \<and>
         files_after (load_data lib w csv_filename csv_filepath airport_iata) = files w \<and>
         (api w airport_iata = Reply None \<longrightarrow>
            returned (load_data lib w csv_filename csv_filepath airport_iata) = Inl ValueError)"
proof -
  have s: "map_option snd (latest_csv lib w csv_filename csv_filepath) \<noteq> Some (today w)"
    using assms(1) by simp
  show ?thesis
  proof (cases "api w airport_iata")
    case NetworkError
    then show ?thesis by (simp add: load_data_stale [OF s])
  next
    case MalformedJSON
    then show ?thesis by (simp add: load_data_stale [OF s])
  next
    case (Reply r)
    then have "r = None" using assms(2) by (cases r) auto
    then show ?thesis
      using Reply assms(1) by (simp add: load_data_stale [OF s] pd_read_csv_def and_then_def)
  qed
qed

text \<open>Claim C7 in a world with an empty cache directory and an empty response.\<close>

theorem no_cache_no_response_fails_witness:
  "latest_csv sample_library ((sample_world 19300 (Reply None))\<lparr>glob := \<lambda>p. []\<rparr>) ''lax_flights_*.csv'' ''data/'' = None \<and>
   api ((sample_world 19300 (Reply None))\<lparr>glob := \<lambda>p. []\<rparr>) ''LAX'' = Reply None \<and>
   returned (load_data sample_library ((sample_world 19300 (Reply None))\<lparr>glob := \<lambda>p. []\<rparr>)
              ''lax_flights_*.csv'' ''data/'' ''LAX'') = Inl ValueError"
proof -
  let ?w = "(sample_world 19300 (Reply None))\<lparr>glob := \<lambda>p. []\<rparr>"
  have l: "latest_csv sample_library ?w ''lax_flights_*.csv'' ''data/'' = None"
    by (simp add: latest_csv_def)
  have a: "api ?w ''LAX'' = Reply None"
    by (simp add: sample_world_def)
  have n: "\<nexists>response. api ?w ''LAX'' = Reply (Some response)"
    by (simp add: sample_world_def)
  show ?thesis
    using no_cache_no_response_fails [OF l n] l a by simp
qed

text \<open>
  Claim C10. When the newest cache file is older than today and the API answers with an
  empty response, \<^verbatim>\<open>load_data\<close> returns what reading that file gives: the result is the
  same whatever the time of the call, and each \<^verbatim>\<open>timestamp_api_call\<close> of the returned
  dataset is the value stored in the file, converted by \<^verbatim>\<open>pd.to_datetime\<close>.
\<close>

theorem stale_fallback_keeps_cached_fetch_time:
  assumes "latest_csv lib w csv_filename csv_filepath = Some (name, d)"
    and "d \<noteq> today w"
    and "api w airport_iata = Reply None"
  shows "returned (load_data lib w csv_filename csv_filepath airport_iata)
           = and_then (pd_read_csv lib w (Some name)) (normalise lib) \<and>
         returned (load_data lib (w\<lparr>now := t\<rparr>) csv_filename csv_filepath airport_iata)
           = returned (load_data lib w csv_filename csv_filepath airport_iata) \<and>
         (returned (load_data lib w csv_filename csv_filepath airport_iata) = Inr ds \<longrightarrow>
            (\<exists>text raw. files w name = Some text \<and> read_csv lib text = Inr raw \<and>
               length (rows ds) = length (rows raw) \<and>
               map (\<lambda>r. to_datetime_cell lib (timestamp_api_call r)) (rows raw)
                 = map (\<lambda>r. Inr (timestamp_api_call r)) (rows ds)))"
proof -
  have s: "map_option snd (latest_csv lib w csv_filename csv_filepath) \<noteq> Some (today w)"
    using assms(1,2) by simp
  have s': "map_option snd (latest_csv lib (w\<lparr>now := t\<rparr>) csv_filename csv_filepath)
            \<noteq> Some (today (w\<lparr>now := t\<rparr>))"
    using assms(1,2) by (simp add: latest_csv_now)
  have r: "returned (load_data lib w csv_filename csv_filepath airport_iata)
           = and_then (pd_read_csv lib w (Some name)) (normalise lib)"
    using assms by (simp add: load_data_stale [OF s])
  have r': "returned (load_data lib (w\<lparr>now := t\<rparr>) csv_filename csv_filepath airport_iata)
           = and_then (pd_read_csv lib w (Some name)) (normalise lib)"
    using assms by (simp add: load_data_stale [OF s'] latest_csv_now pd_read_csv_now)
  have "\<exists>text raw. files w name = Some text \<and> read_csv lib text = Inr raw \<and>
               length (rows ds) = length (rows raw) \<and>
               map (\<lambda>r. to_datetime_cell lib (timestamp_api_call r)) (rows raw)
                 = map (\<lambda>r. Inr (timestamp_api_call r)) (rows ds)"
    if ok: "returned (load_data lib w csv_filename csv_filepath airport_iata) = Inr ds"
  proof -
    from ok r obtain content raw where
      f: "files w name = Some content" "read_csv lib content = Inr raw" "normalise lib raw = Inr ds"
      by (auto simp: and_then_def pd_read_csv_def split: option.splits sum.splits)
    then show ?thesis using normalise_stamps [OF f(3)] by blast
  qed
  then show ?thesis using r r' by simp
qed

text \<open>
  Claim C10 with a cache file fetched on 2022-11-03 at 06:00 and a call on 2022-11-04 at
  07:00: the returned fetch time is the one of the file.
\<close>

theorem stale_fallback_keeps_cached_fetch_time_witness:
  "latest_csv sample_library (sample_world 19300 (Reply None)) ''lax_flights_*.csv'' ''data/''
     = Some (''data/lax_flights_20221103.csv'', 19299) \<and>
   today (sample_world 19300 (Reply None)) = 19300 \<and>
   api (sample_world 19300 (Reply None)) ''LAX'' = Reply None \<and>
   now (sample_world 19300 (Reply None)) = at_time 19300 7 0 \<and>
   returned (load_data sample_library (sample_world 19300 (Reply None)) ''lax_flights_*.csv'' ''data/'' ''LAX'')
     = Inr sample_dataset \<and>
   map timestamp_api_call (rows sample_dataset) = [Some (at_time 19299 6 0)]"
proof -
  let ?w = "sample_world 19300 (Reply None)"
  have l: "latest_csv sample_library ?w ''lax_flights_*.csv'' ''data/''
     = Some (''data/lax_flights_20221103.csv'', 19299)"
    by (rule sample_latest)
  have t: "today ?w = 19300" "api ?w ''LAX'' = Reply None" "now ?w = at_time 19300 7 0"
    by (simp_all add: sample_world_def)
  have d: "(19299::nat) \<noteq> today ?w" by (simp add: t)
  show ?thesis
    using stale_fallback_keeps_cached_fetch_time [OF l d t(2), of "at_time 0 0 0" sample_dataset]
      l t sample_read [of 19300 "Reply None"]
    by (simp add: sample_dataset_def)
qed

section \<open>Writing and reading the cache file\<close>















lemma sample_times_differ: "at_time 19300 7 0 \<noteq> at_time 19300 10 5" "at_time 19300 7 0 \<noteq> at_time 19300 11 0"
  by (simp_all add: at_time_def)














end
